theory Spec2Isabelle
  imports Main
begin

section \<open>Python values and exceptions\<close>

text \<open>
  The exception classes that \<^verbatim>\<open>processor.py\<close> distinguishes in its \<^verbatim>\<open>except\<close>
  clauses. \<open>CancelledError\<close> derives from \<^verbatim>\<open>BaseException\<close>, so \<^verbatim>\<open>except Exception\<close>
  does not catch it; \<open>JSONDecodeError\<close> derives from \<open>ValueError\<close>;
  \<open>OtherError\<close> stands for every other subclass of \<^verbatim>\<open>Exception\<close>
  (\<^verbatim>\<open>OperationFailure\<close>, \<^verbatim>\<open>KeyError\<close>, ...). An exception carries its
  message, the text \<^verbatim>\<open>str(e)\<close> returns.
\<close>

datatype exn_class =
    RedisConnectionError | RedisTimeoutError | OSError | RedisResponseError
  | MongoConfigurationError | MongoConnectionFailure | MongoServerSelectionTimeoutError
  | ValueError | JSONDecodeError | CancelledError | OtherError

datatype exn = Exn (cls: exn_class) (msg: string)

text \<open>\<^verbatim>\<open>except (RedisConnectionError, RedisTimeoutError, OSError)\<close>\<close>

definition conn_class :: "exn \<Rightarrow> bool" where
  "conn_class e = (cls e = RedisConnectionError \<or> cls e = RedisTimeoutError \<or> cls e = OSError)"

text \<open>\<^verbatim>\<open>except Exception\<close>\<close>

definition is_Exception :: "exn \<Rightarrow> bool" where
  "is_Exception e = (cls e \<noteq> CancelledError)"

text \<open>\<^verbatim>\<open>except ValueError\<close> and \<^verbatim>\<open>except json.JSONDecodeError\<close>\<close>

definition is_ValueError :: "exn \<Rightarrow> bool" where
  "is_ValueError e = (cls e = ValueError \<or> cls e = JSONDecodeError)"

definition is_JSONDecodeError :: "exn \<Rightarrow> bool" where
  "is_JSONDecodeError e = (cls e = JSONDecodeError)"

text \<open>
  The values a field of an envelope can hold (\<^verbatim>\<open>dict[str, Any]\<close>): what the broker
  delivers and what \<^verbatim>\<open>json.loads\<close> builds. A float keeps its literal text.
\<close>

datatype pyval =
    PNone | PBool bool | PInt int | PFloat string | PStr string | PBytes string
  | PList "pyval list" | PDict "(string \<times> pyval) list"

type_synonym pydict = "string \<rightharpoonup> pyval"

text \<open>\<^verbatim>\<open>isinstance(v, list)\<close>\<close>

fun is_pylist :: "pyval \<Rightarrow> bool" where
  "is_pylist (PList xs) = True"
| "is_pylist v = False"

text \<open>
  What the processor calls and this repository does not define: the builtin
  \<^verbatim>\<open>int(str)\<close>, \<^verbatim>\<open>json.loads\<close>, and the two SDK parsers
  (\<^verbatim>\<open>billie_accounts_events\<close>, \<^verbatim>\<open>billie_customers_events\<close>). Each returns a
  value or raises (\<open>Inl\<close>).
\<close>

record ('a, 'c) lib =
  py_int :: "string \<Rightarrow> exn + int"
  json_loads :: "string \<Rightarrow> exn + pyval"
  parse_account_message :: "pydict \<Rightarrow> exn + 'a"
  parse_customer_message :: "pydict \<Rightarrow> exn + 'c"

text \<open>
  Nothing is assumed about what the builtins raise. \<^verbatim>\<open>int\<close> of a string raises
  \<open>ValueError\<close>; \<^verbatim>\<open>json.loads\<close> raises \<open>JSONDecodeError\<close> on a malformed
  document, and a plain \<open>ValueError\<close> on an integer literal longer than the
  interpreter's limit (4300 digits unless configured otherwise).
\<close>

section \<open>The envelope sanitizer\<close>

text \<open>
  \<^verbatim>\<open>sanitize_envelope\<close>, lines 31 to 78. \<open>result = data.copy()\<close>: the model returns
  a new map and leaves its argument as it is. The blocks for \<open>c_seq\<close> and \<open>seq\<close>
  differ in the key only, so one function takes the key.
\<close>

definition fix_seq_field :: "('a, 'c) lib \<Rightarrow> string \<Rightarrow> pydict \<Rightarrow> exn + pydict" where
  "fix_seq_field L k result =
     (case result k of
        None \<Rightarrow> Inr result
      | Some v \<Rightarrow>
          if v = PStr [] \<or> v = PNone then Inr (result(k \<mapsto> PInt 0))
          else (case v of
                  PStr s \<Rightarrow>
                    (case py_int L s of
                       Inr n \<Rightarrow> Inr (result(k \<mapsto> PInt n))
                     | Inl e \<Rightarrow> if is_ValueError e then Inr (result(k \<mapsto> PInt 0)) else Inl e)
                | _ \<Rightarrow> Inr result))"

definition fix_rec :: "('a, 'c) lib \<Rightarrow> pydict \<Rightarrow> exn + pydict" where
  "fix_rec L result =
     (case result ''rec'' of
        None \<Rightarrow> Inr result
      | Some v \<Rightarrow>
          (case v of
             PStr s \<Rightarrow>
               (case json_loads L s of
                  Inr j \<Rightarrow> Inr (result(''rec'' \<mapsto> j))
                | Inl e \<Rightarrow>
                    if is_JSONDecodeError e
                    then Inr (result(''rec'' \<mapsto> (if s \<noteq> [] then PList [PStr s] else PList [])))
                    else Inl e)
           | PNone \<Rightarrow> Inr (result(''rec'' \<mapsto> PList []))
           | _ \<Rightarrow> Inr result))"

definition fix_dat :: "('a, 'c) lib \<Rightarrow> pydict \<Rightarrow> exn + pydict" where
  "fix_dat L result =
     (case result ''dat'' of
        Some (PStr s) \<Rightarrow>
          (case json_loads L s of
             Inr j \<Rightarrow> Inr (result(''dat'' \<mapsto> j))
           | Inl e \<Rightarrow> if is_JSONDecodeError e then Inr result else Inl e)
      | _ \<Rightarrow> Inr result)"

definition sanitize_envelope :: "('a, 'c) lib \<Rightarrow> pydict \<Rightarrow> exn + pydict" where
  "sanitize_envelope L data =
     (case fix_seq_field L ''c_seq'' data of
        Inl e \<Rightarrow> Inl e
      | Inr r1 \<Rightarrow>
          (case fix_seq_field L ''seq'' r1 of
             Inl e \<Rightarrow> Inl e
           | Inr r2 \<Rightarrow>
               (case fix_rec L r2 of
                  Inl e \<Rightarrow> Inl e
                | Inr r3 \<Rightarrow> fix_dat L r3)))"

section \<open>Parser selection\<close>

text \<open>\<^verbatim>\<open>str.startswith\<close>\<close>

definition startswith :: "'a list \<Rightarrow> 'a list \<Rightarrow> bool" where
  "startswith s p = (take (length p) s = p)"

text \<open>
  What \<^verbatim>\<open>_parse_event\<close> returns: the accounts SDK's object, the synthesized
  \<^verbatim>\<open>ParsedEvent\<close> with its four attributes (event type, conversation id, sequence,
  payload), or a plain dict.
\<close>

datatype ('a, 'c) parsed_event =
    AccountEvent 'a
  | CustomerEvent string pyval pyval 'c
  | RawEvent pydict

text \<open>\<^verbatim>\<open>d.get(k, "")\<close>\<close>

definition get_or_empty :: "pydict \<Rightarrow> string \<Rightarrow> pyval" where
  "get_or_empty d k = (case d k of None \<Rightarrow> PStr [] | Some v \<Rightarrow> v)"

text \<open>
  \<^verbatim>\<open>_parse_event\<close>, lines 542 to 568. Its parameter is named \<^verbatim>\<open>sanitized\<close>: the
  field map decoded to text; \<^verbatim>\<open>sdk_data\<close> is the result of the sanitizer. The last
  branch returns the parameter.
\<close>

definition parse_event ::
  "('a, 'c) lib \<Rightarrow> string \<Rightarrow> pydict \<Rightarrow> exn + ('a, 'c) parsed_event" where
  "parse_event L event_type sanitized =
     (case sanitize_envelope L sanitized of
        Inl e \<Rightarrow> Inl e
      | Inr sdk_data \<Rightarrow>
          if startswith event_type ''account.'' \<or> startswith event_type ''payment.'' then
            (case parse_account_message L sdk_data of
               Inl e \<Rightarrow> Inl e
             | Inr p \<Rightarrow> Inr (AccountEvent p))
          else if startswith event_type ''customer.'' \<or> startswith event_type ''application.'' then
            (case parse_customer_message L sdk_data of
               Inl e \<Rightarrow> Inl e
             | Inr payload \<Rightarrow>
                 Inr (CustomerEvent event_type (get_or_empty sdk_data ''conv'')
                        (get_or_empty sdk_data ''seq'') payload))
          else Inr (RawEvent sanitized))"

section \<open>Dispatch of one message\<close>

text \<open>
  The settings \<^verbatim>\<open>_process_message\<close> and \<^verbatim>\<open>_move_to_dlq\<close> read
  (\<^verbatim>\<open>config.py\<close> is taken as a parameter).
\<close>

record settings =
  consumer_group :: string
  internal_stream :: string
  dlq_stream :: string
  dedup_ttl_seconds :: int
  max_retries :: int

text \<open>
  The side effects an observer of the broker and of the handler sees, in the order
  they complete: a handler is entered, a handler returns (its writes to the document
  store are done), and the broker commands \<^verbatim>\<open>setex\<close>, \<^verbatim>\<open>xack\<close> and \<^verbatim>\<open>xadd\<close>
  that succeeded. A command that raises leaves no event.
\<close>

datatype event =
    HandlerInvoked string
  | HandlerCommitted string
  | Setex string int string
  | Xack string string string
  | Xadd string "string \<rightharpoonup> string"

fun is_invoked :: "event \<Rightarrow> bool" where
  "is_invoked (HandlerInvoked t) = True"
| "is_invoked e = False"

fun is_committed :: "event \<Rightarrow> bool" where
  "is_committed (HandlerCommitted t) = True"
| "is_committed e = False"

fun is_setex :: "event \<Rightarrow> bool" where
  "is_setex (Setex k t v) = True"
| "is_setex e = False"

fun is_xack :: "event \<Rightarrow> bool" where
  "is_xack (Xack s g i) = True"
| "is_xack e = False"

fun is_xadd :: "event \<Rightarrow> bool" where
  "is_xadd (Xadd s d) = True"
| "is_xadd e = False"

text \<open>
  \<open>happens_before P Q es\<close>: no event of kind \<open>Q\<close> stands in \<open>es\<close> before the first
  event of kind \<open>P\<close> (so every \<open>Q\<close> has a \<open>P\<close> before it).
\<close>

fun happens_before :: "(event \<Rightarrow> bool) \<Rightarrow> (event \<Rightarrow> bool) \<Rightarrow> event list \<Rightarrow> bool" where
  "happens_before P Q [] = True"
| "happens_before P Q (e # es) = (if P e then True else if Q e then False else happens_before P Q es)"

text \<open>
  The world a dispatch runs in: the keys present in the broker's key-value store, the
  document store, a fault schedule (what the \<open>i\<close>-th broker command of the run raises,
  if anything), the number of broker commands issued so far, and the events so far.
\<close>

record 'db world =
  dedup_keys :: "string \<Rightarrow> bool"
  db :: 'db
  sched :: "nat \<Rightarrow> exn option"
  ncalls :: nat
  trace :: "event list"

definition broker_call :: "'db world \<Rightarrow> exn option \<times> 'db world" where
  "broker_call w = (sched w (ncalls w), w\<lparr>ncalls := Suc (ncalls w)\<rparr>)"

text \<open>\<^verbatim>\<open>redis.exists\<close>, \<^verbatim>\<open>redis.setex\<close>, \<^verbatim>\<open>redis.xack\<close>, \<^verbatim>\<open>redis.xadd\<close>\<close>

definition redis_exists :: "string \<Rightarrow> 'db world \<Rightarrow> (exn + bool) \<times> 'db world" where
  "redis_exists key w =
     (case broker_call w of
        (Some e, w') \<Rightarrow> (Inl e, w')
      | (None, w') \<Rightarrow> (Inr (dedup_keys w' key), w'))"

definition redis_setex :: "string \<Rightarrow> int \<Rightarrow> string \<Rightarrow> 'db world \<Rightarrow> exn option \<times> 'db world" where
  "redis_setex key ttl v w =
     (case broker_call w of
        (Some e, w') \<Rightarrow> (Some e, w')
      | (None, w') \<Rightarrow>
          (None, w'\<lparr>dedup_keys := (dedup_keys w')(key := True),
                     trace := trace w' @ [Setex key ttl v]\<rparr>))"

definition redis_xack :: "string \<Rightarrow> string \<Rightarrow> string \<Rightarrow> 'db world \<Rightarrow> exn option \<times> 'db world" where
  "redis_xack stream grp message_id w =
     (case broker_call w of
        (Some e, w') \<Rightarrow> (Some e, w')
      | (None, w') \<Rightarrow> (None, w'\<lparr>trace := trace w' @ [Xack stream grp message_id]\<rparr>))"

definition redis_xadd :: "string \<Rightarrow> (string \<rightharpoonup> string) \<Rightarrow> 'db world \<Rightarrow> exn option \<times> 'db world" where
  "redis_xadd stream entry w =
     (case broker_call w of
        (Some e, w') \<Rightarrow> (Some e, w')
      | (None, w') \<Rightarrow> (None, w'\<lparr>trace := trace w' @ [Xadd stream entry]\<rparr>))"

text \<open>
  A handler takes the document store and the parsed event; it returns or raises, and
  leaves the document store as its writes made it.
\<close>

type_synonym ('db, 'a, 'c) handler = "'db \<Rightarrow> ('a, 'c) parsed_event \<Rightarrow> exn option \<times> 'db"

text \<open>
  \<^verbatim>\<open>sanitized.get("msg_type") or sanitized.get("typ") or sanitized.get("event_type", "")\<close>:
  the first of the three that is present and not empty; when none is, the value of the
  last operand. The fields are the broker's byte strings, read as the text they decode to.
\<close>

definition derive_event_type :: "(string \<rightharpoonup> string) \<Rightarrow> string" where
  "derive_event_type flds =
     (case flds ''msg_type'' of
        Some (c # cs) \<Rightarrow> c # cs
      | _ \<Rightarrow>
          (case flds ''typ'' of
             Some (c # cs) \<Rightarrow> c # cs
           | _ \<Rightarrow> (case flds ''event_type'' of None \<Rightarrow> [] | Some s \<Rightarrow> s)))"

text \<open>\<^verbatim>\<open>f"dedup:{stream}:{message_id_str}"\<close>\<close>

definition dedup_key :: "string \<Rightarrow> string \<Rightarrow> string" where
  "dedup_key stream message_id = ''dedup:'' @ stream @ '':'' @ message_id"

text \<open>
  The \<^verbatim>\<open>try\<close> body of \<^verbatim>\<open>_process_message\<close>, lines 448 to 510: \<open>None\<close> when it runs
  to its end or returns, \<open>Some e\<close> when it raises \<open>e\<close>. Printing and logging are left out.
\<close>

definition process_body ::
  "('a, 'c) lib \<Rightarrow> settings \<Rightarrow> (string \<rightharpoonup> ('db, 'a, 'c) handler) \<Rightarrow>
   string \<times> (string \<rightharpoonup> string) \<Rightarrow> string \<Rightarrow> 'db world \<Rightarrow> exn option \<times> 'db world" where
  "process_body L cfg handlers message stream w =
     (let message_id = fst message;
          flds = snd message;
          sanitized = map_option PStr \<circ> flds;
          event_type = derive_event_type flds
      in case redis_exists (dedup_key stream message_id) w of
           (Inl e, w1) \<Rightarrow> (Some e, w1)
         | (Inr True, w1) \<Rightarrow> redis_xack stream (consumer_group cfg) message_id w1
         | (Inr False, w1) \<Rightarrow>
             (case parse_event L event_type sanitized of
                Inl e \<Rightarrow> (Some e, w1)
              | Inr parsed_event \<Rightarrow>
                  (case handlers event_type of
                     None \<Rightarrow> redis_xack stream (consumer_group cfg) message_id w1
                   | Some handler \<Rightarrow>
                       (let w2 = w1\<lparr>trace := trace w1 @ [HandlerInvoked event_type]\<rparr>
                        in case handler (db w2) parsed_event of
                             (Some e, d) \<Rightarrow> (Some e, w2\<lparr>db := d\<rparr>)
                           | (None, d) \<Rightarrow>
                               (let w3 = w2\<lparr>db := d,
                                          trace := trace w2 @ [HandlerCommitted event_type]\<rparr>
                                in case redis_setex (dedup_key stream message_id)
                                          (dedup_ttl_seconds cfg) ''1'' w3 of
                                     (Some e, w4) \<Rightarrow> (Some e, w4)
                                   | (None, w4) \<Rightarrow>
                                       redis_xack stream (consumer_group cfg) message_id w4)))))"

text \<open>
  \<^verbatim>\<open>_move_to_dlq\<close>, lines 570 to 586; \<open>now\<close> is \<^verbatim>\<open>datetime.utcnow().isoformat()\<close>.
\<close>

definition move_to_dlq ::
  "settings \<Rightarrow> string \<Rightarrow> string \<Rightarrow> (string \<rightharpoonup> string) \<Rightarrow> string \<Rightarrow> 'db world \<Rightarrow>
   exn option \<times> 'db world" where
  "move_to_dlq cfg now message_id flds error w =
     redis_xadd (dlq_stream cfg)
       (flds(''original_message_id'' \<mapsto> message_id, ''error'' \<mapsto> error, ''moved_at'' \<mapsto> now)) w"

text \<open>
  \<^verbatim>\<open>_process_message\<close>, lines 436 to 540: the \<^verbatim>\<open>try\<close> body under its two
  \<^verbatim>\<open>except\<close> clauses. An exception raised inside the second clause that its inner
  \<^verbatim>\<open>except\<close> does not name leaves the function.
\<close>

definition process_message ::
  "('a, 'c) lib \<Rightarrow> settings \<Rightarrow> string \<Rightarrow> (string \<rightharpoonup> ('db, 'a, 'c) handler) \<Rightarrow>
   string \<times> (string \<rightharpoonup> string) \<Rightarrow> string \<Rightarrow> int \<Rightarrow> 'db world \<Rightarrow> exn option \<times> 'db world" where
  "process_message L cfg now handlers message stream delivery_count w =
     (case process_body L cfg handlers message stream w of
        (None, w1) \<Rightarrow> (None, w1)
      | (Some e, w1) \<Rightarrow>
          if conn_class e then (Some e, w1)
          else if is_Exception e then
            (if delivery_count \<ge> max_retries cfg then
               (case move_to_dlq cfg now (fst message) (snd message) (msg e) w1 of
                  (Some e2, w2) \<Rightarrow> if conn_class e2 then (None, w2) else (Some e2, w2)
                | (None, w2) \<Rightarrow>
                    (case redis_xack stream (consumer_group cfg) (fst message) w2 of
                       (Some e2, w3) \<Rightarrow> if conn_class e2 then (None, w3) else (Some e2, w3)
                     | (None, w3) \<Rightarrow> (None, w3)))
             else (None, w1))
          else (Some e, w1))"

text \<open>The events a run added to the trace.\<close>

definition emitted :: "'db world \<Rightarrow> 'db world \<Rightarrow> event list" where
  "emitted w w' = drop (length (trace w)) (trace w')"

section \<open>The supervisor's steady-state loop\<close>

text \<open>\<^verbatim>\<open>sub in s\<close> on strings\<close>

fun contains :: "'a list \<Rightarrow> 'a list \<Rightarrow> bool" where
  "contains sub [] = (sub = [])"
| "contains sub (c # cs) = (startswith (c # cs) sub \<or> contains sub cs)"

text \<open>
  What the calls of one iteration of the \<^verbatim>\<open>while self._running\<close> loop of
  \<^verbatim>\<open>start\<close> do (lines 261 to 350): \<^verbatim>\<open>_process_new_messages\<close>, the two
  \<^verbatim>\<open>_ensure_consumer_group\<close> calls of the NOGROUP branch, and
  \<^verbatim>\<open>_recover_after_reconnect\<close>; \<open>None\<close> when the call returns. A call the
  iteration does not reach is not read.
\<close>

record iteration =
  body :: "exn option"
  ensure_inbox :: "exn option"
  ensure_internal :: "exn option"
  recover :: "exn option"

text \<open>
  The loop's variables, and the durations passed to \<^verbatim>\<open>asyncio.sleep\<close> so far.
\<close>

record supervisor =
  running :: bool
  reconnect_backoff :: int
  sleeps :: "int list"

definition max_reconnect_backoff :: int where
  "max_reconnect_backoff = 30"

definition start_state :: supervisor where
  "start_state = \<lparr>running = True, reconnect_backoff = 1, sleeps = []\<rparr>"

definition ensure_groups :: "iteration \<Rightarrow> exn option" where
  "ensure_groups it = (case ensure_inbox it of Some e \<Rightarrow> Some e | None \<Rightarrow> ensure_internal it)"

text \<open>
  The sleep, the doubling of the backoff and the recovery: the same lines stand in the
  NOGROUP branch (295 to 306) and in Layer 2 (323 to 334).
  \<^verbatim>\<open>except Exception\<close> around the recovery lets a \<open>CancelledError\<close> pass.
\<close>

definition reconnect :: "iteration \<Rightarrow> supervisor \<Rightarrow> exn option \<times> supervisor" where
  "reconnect it s =
     (let s1 = s\<lparr>sleeps := sleeps s @ [reconnect_backoff s]\<rparr>;
          s2 = s1\<lparr>reconnect_backoff := min (reconnect_backoff s1 * 2) max_reconnect_backoff\<rparr>
      in case recover it of
           None \<Rightarrow> (None, s2\<lparr>reconnect_backoff := 1\<rparr>)
         | Some e \<Rightarrow> if is_Exception e then (None, s2) else (Some e, s2))"

text \<open>
  One iteration: \<open>None\<close> when the loop goes on, \<open>Some e\<close> when \<open>e\<close> leaves
  \<^verbatim>\<open>start\<close>. The \<^verbatim>\<open>except\<close> clauses are tried in the source's order; an
  exception raised inside a clause is not caught by a later clause of the same
  \<^verbatim>\<open>try\<close>.
\<close>

definition loop_iteration :: "iteration \<Rightarrow> supervisor \<Rightarrow> exn option \<times> supervisor" where
  "loop_iteration it s =
     (case body it of
        None \<Rightarrow> (None, s\<lparr>reconnect_backoff := 1\<rparr>)
      | Some e \<Rightarrow>
          if cls e = RedisResponseError then
            (if contains ''NOGROUP'' (msg e) then
               (case ensure_groups it of
                  None \<Rightarrow> (None, s\<lparr>reconnect_backoff := 1\<rparr>)
                | Some e2 \<Rightarrow> if conn_class e2 then reconnect it s else (Some e2, s))
             else (Some e, s))
          else if conn_class e then reconnect it s
          else if cls e = CancelledError then (Some e, s\<lparr>running := False\<rparr>)
          else (None, s\<lparr>sleeps := sleeps s @ [1]\<rparr>))"

text \<open>
  The loop over the iterations of a finite prefix of a run: it stops when an exception
  leaves it, when \<^verbatim>\<open>_running\<close> is false, or at the end of the prefix.
\<close>

fun run_loop :: "iteration list \<Rightarrow> supervisor \<Rightarrow> exn option \<times> supervisor" where
  "run_loop [] s = (None, s)"
| "run_loop (it # its) s =
     (if \<not> running s then (None, s)
      else case loop_iteration it s of
             (None, s') \<Rightarrow> run_loop its s'
           | (Some e, s') \<Rightarrow> (Some e, s'))"

text \<open>
  An iteration of a reconnect burst: the read fails with a connection-class error
  (or with NOGROUP, and re-creating the groups fails with one), and the recovery fails
  too, with an exception the loop swallows.
\<close>

definition reconnect_failure :: "iteration \<Rightarrow> bool" where
  "reconnect_failure it =
     ((case body it of
         None \<Rightarrow> False
       | Some e \<Rightarrow>
           if cls e = RedisResponseError then
             contains ''NOGROUP'' (msg e) \<and>
             (case ensure_groups it of None \<Rightarrow> False | Some e2 \<Rightarrow> conn_class e2)
           else conn_class e) \<and>
      (case recover it of None \<Rightarrow> False | Some e \<Rightarrow> is_Exception e))"

section \<open>Connecting at startup\<close>

text \<open>
  One pass through a \<^verbatim>\<open>try\<close> of \<^verbatim>\<open>_connect\<close> (lines 128 to 208): the client
  factory raises, or it returns a client and the ping raises, or the ping answers.
\<close>

datatype attempt = FactoryRaises exn | PingRaises exn | Connected

datatype conn_event = RedisFactory | RedisClose nat | MongoFactory | MongoClose nat | Sleep int

text \<open>
  \<^verbatim>\<open>self.redis\<close>, \<^verbatim>\<open>self.mongo\<close>, \<^verbatim>\<open>self.db\<close> (a client is the number it was
  created under), the number of clients created so far, and the calls an observer
  sees: of the two factories, of \<^verbatim>\<open>close\<close>, of \<^verbatim>\<open>asyncio.sleep\<close>.
\<close>

record connections =
  redis :: "nat option"
  mongo :: "nat option"
  mongo_db :: "nat option"
  clients :: nat
  calls :: "conn_event list"

datatype outcome = Returned | Raised exn | Retrying

text \<open>\<^verbatim>\<open>except (MongoConnectionFailure, MongoServerSelectionTimeoutError, OSError)\<close>\<close>

definition mongo_transient :: "exn \<Rightarrow> bool" where
  "mongo_transient e =
     (cls e = MongoConnectionFailure \<or> cls e = MongoServerSelectionTimeoutError \<or> cls e = OSError)"

definition sleep :: "int \<Rightarrow> connections \<Rightarrow> connections" where
  "sleep d s = s\<lparr>calls := calls s @ [Sleep d]\<rparr>"

text \<open>
  \<^verbatim>\<open>self.redis = self._create_redis_client(); await self.redis.ping()\<close>: an
  assignment whose right side raises does not happen.
\<close>

definition try_redis :: "attempt \<Rightarrow> connections \<Rightarrow> exn option \<times> connections" where
  "try_redis a s =
     (let s0 = s\<lparr>calls := calls s @ [RedisFactory]\<rparr>;
          s1 = s0\<lparr>redis := Some (Suc (clients s0)), clients := Suc (clients s0)\<rparr>
      in case a of
           FactoryRaises e \<Rightarrow> (Some e, s0)
         | PingRaises e \<Rightarrow> (Some e, s1)
         | Connected \<Rightarrow> (None, s1))"

text \<open>
  \<^verbatim>\<open>if self.redis: ... close() ...; self.redis = None\<close> (an error of \<^verbatim>\<open>close\<close> is
  swallowed there; \<^verbatim>\<open>close\<close> is taken to return).
\<close>

definition close_redis :: "connections \<Rightarrow> connections" where
  "close_redis s =
     (case redis s of
        None \<Rightarrow> s
      | Some c \<Rightarrow> s\<lparr>redis := None, calls := calls s @ [RedisClose c]\<rparr>)"

text \<open>
  The first \<^verbatim>\<open>while True\<close>: one attempt per element of the script; \<open>Retrying\<close> when
  the script ends before the loop does.
\<close>

fun connect_redis :: "attempt list \<Rightarrow> int \<Rightarrow> connections \<Rightarrow> outcome \<times> connections" where
  "connect_redis [] startup_backoff s = (Retrying, s)"
| "connect_redis (a # as) startup_backoff s =
     (case try_redis a s of
        (None, s1) \<Rightarrow> (Returned, s1)
      | (Some e, s1) \<Rightarrow>
          if conn_class e
          then connect_redis as (min (startup_backoff * 2) 30) (sleep startup_backoff (close_redis s1))
          else (Raised e, s1))"

text \<open>
  \<^verbatim>\<open>self.mongo = AsyncIOMotorClient(...); self.db = self.mongo[self.db_name];
  await self.db.command("ping")\<close>
\<close>

definition try_mongo :: "attempt \<Rightarrow> connections \<Rightarrow> exn option \<times> connections" where
  "try_mongo a s =
     (let s0 = s\<lparr>calls := calls s @ [MongoFactory]\<rparr>;
          s1 = s0\<lparr>mongo := Some (Suc (clients s0)), mongo_db := Some (Suc (clients s0)),
                  clients := Suc (clients s0)\<rparr>
      in case a of
           FactoryRaises e \<Rightarrow> (Some e, s0)
         | PingRaises e \<Rightarrow> (Some e, s1)
         | Connected \<Rightarrow> (None, s1))"

text \<open>\<^verbatim>\<open>if self.mongo: self.mongo.close(); self.mongo = None; self.db = None\<close>\<close>

definition close_mongo :: "connections \<Rightarrow> connections" where
  "close_mongo s =
     (case mongo s of
        None \<Rightarrow> s
      | Some c \<Rightarrow> s\<lparr>mongo := None, mongo_db := None, calls := calls s @ [MongoClose c]\<rparr>)"

text \<open>The second \<^verbatim>\<open>while True\<close>; the clause for the configuration error comes first.\<close>

fun connect_mongo :: "attempt list \<Rightarrow> int \<Rightarrow> connections \<Rightarrow> outcome \<times> connections" where
  "connect_mongo [] startup_backoff s = (Retrying, s)"
| "connect_mongo (a # as) startup_backoff s =
     (case try_mongo a s of
        (None, s1) \<Rightarrow> (Returned, s1)
      | (Some e, s1) \<Rightarrow>
          if cls e = MongoConfigurationError then (Raised e, s1)
          else if mongo_transient e
          then connect_mongo as (min (startup_backoff * 2) 30) (sleep startup_backoff (close_mongo s1))
          else (Raised e, s1))"

text \<open>
  \<^verbatim>\<open>_connect\<close>: both phases start from \<^verbatim>\<open>startup_backoff = 1\<close> (line 130, and
  the reset of line 164).
\<close>

definition connect :: "attempt list \<Rightarrow> attempt list \<Rightarrow> connections \<Rightarrow> outcome \<times> connections" where
  "connect redis_script mongo_script s =
     (case connect_redis redis_script 1 s of
        (Returned, s1) \<Rightarrow> connect_mongo mongo_script 1 s1
      | (r, s1) \<Rightarrow> (r, s1))"

section \<open>The requirements substitution script\<close>

text \<open>
  \<^verbatim>\<open>scripts/subst-sdk-requirements.py\<close>. A Python string is the list of its code
  points; \<open>code_points\<close> reads an ASCII literal as one.
\<close>

type_synonym ustr = "nat list"







text \<open>
  What \<^verbatim>\<open>open(path)\<close> delivers of a file's text: text mode with universal
  newlines turns a carriage return followed by a line feed, and a carriage return
  alone, into one line feed.
\<close>

fun universal_newlines :: "ustr \<Rightarrow> ustr" where
  "universal_newlines [] = []"
| "universal_newlines [c] = [if c = 13 then 10 else c]"
| "universal_newlines (c # d # cs) =
     (if c = 13 \<and> d = 10 then 10 # universal_newlines cs
      else if c = 13 then 10 # universal_newlines (d # cs)
      else c # universal_newlines (d # cs))"






section \<open>Stand-ins for the examples\<close>

text \<open>
  A reader of unsigned decimal numerals and a decoder of the same numerals as JSON
  documents. On a text of decimal digits they do what \<^verbatim>\<open>int\<close> and
  \<^verbatim>\<open>json.loads\<close> do: both read the number, both raise \<open>ValueError\<close> beyond the
  limit of 4300 digits, and \<^verbatim>\<open>json.loads\<close> rejects a leading zero. The examples
  use them on such texts and on \<open>n/a\<close>, which \<^verbatim>\<open>int\<close> rejects with
  \<open>ValueError\<close> and \<^verbatim>\<open>json.loads\<close> with \<open>JSONDecodeError\<close>, as the stand-ins
  do with every text that is not all digits. The SDK parsers of the examples accept
  every envelope.
\<close>

definition digit_val :: "char \<Rightarrow> int option" where
  "digit_val c =
     (let n = (of_char c :: nat) in if 48 \<le> n \<and> n \<le> 57 then Some (int n - 48) else None)"

fun read_digits :: "int \<Rightarrow> string \<Rightarrow> int option" where
  "read_digits acc [] = Some acc"
| "read_digits acc (c # cs) =
     (case digit_val c of None \<Rightarrow> None | Some d \<Rightarrow> read_digits (10 * acc + d) cs)"

definition all_digits :: "string \<Rightarrow> bool" where
  "all_digits s = (s \<noteq> [] \<and> list_all (\<lambda>c. digit_val c \<noteq> None) s)"

definition max_str_digits :: nat where
  "max_str_digits = 4300"

definition digits_limit_error :: exn where
  "digits_limit_error =
     Exn ValueError ''Exceeds the limit (4300 digits) for integer string conversion''"

definition numeral_int :: "string \<Rightarrow> exn + int" where
  "numeral_int s =
     (if \<not> all_digits s then Inl (Exn ValueError ''invalid literal for int() with base 10'')
      else if length s > max_str_digits then Inl digits_limit_error
      else (case read_digits 0 s of
              None \<Rightarrow> Inl (Exn ValueError ''invalid literal for int() with base 10'')
            | Some n \<Rightarrow> Inr n))"

definition numeral_json :: "string \<Rightarrow> exn + pyval" where
  "numeral_json s =
     (if \<not> all_digits s then Inl (Exn JSONDecodeError ''Expecting value'')
      else if hd s = CHR ''0'' \<and> length s > 1 then Inl (Exn JSONDecodeError ''Extra data'')
      else if length s > max_str_digits then Inl digits_limit_error
      else (case read_digits 0 s of
              None \<Rightarrow> Inl (Exn JSONDecodeError ''Expecting value'')
            | Some n \<Rightarrow> Inr (PInt n)))"

text \<open>A numeral of 4301 digits.\<close>

definition long_digits :: string where
  "long_digits = replicate 4301 (CHR ''1'')"

definition example_lib :: "(unit, unit) lib" where
  "example_lib =
     \<lparr>py_int = numeral_int, json_loads = numeral_json,
      parse_account_message = (\<lambda>d. Inr ()), parse_customer_message = (\<lambda>d. Inr ())\<rparr>"

text \<open>
  A dispatch to run: settings with three retries, a world with an empty key-value
  store and no fault, one where the dedup key of the message is present, one whose
  third broker command (the \<^verbatim>\<open>xack\<close> after the DLQ append) loses the connection, a
  handler that raises, a handler that writes, and a message of a type that no SDK parses.
\<close>

definition example_settings :: settings where
  "example_settings =
     \<lparr>consumer_group = ''servicing'', internal_stream = ''internal'', dlq_stream = ''dlq'',
      dedup_ttl_seconds = 86400, max_retries = 3\<rparr>"

definition quiet_world :: "nat world" where
  "quiet_world =
     \<lparr>dedup_keys = (\<lambda>k. False), db = 0, sched = (\<lambda>i. None), ncalls = 0, trace = []\<rparr>"

definition seen_world :: "nat world" where
  "seen_world = quiet_world\<lparr>dedup_keys := (\<lambda>k. k = ''dedup:inbox:1-0'')\<rparr>"

definition ack_fault_world :: "nat world" where
  "ack_fault_world =
     quiet_world\<lparr>sched :=
       (\<lambda>i. if i = 2 then Some (Exn RedisConnectionError ''Connection closed'') else None)\<rparr>"

definition failing_handler :: "(nat, unit, unit) handler" where
  "failing_handler d p = (Some (Exn OtherError ''boom''), d)"

definition writing_handler :: "(nat, unit, unit) handler" where
  "writing_handler d p = (None, Suc d)"

definition chat_message :: "string \<times> (string \<rightharpoonup> string)" where
  "chat_message = (''1-0'', [''typ'' \<mapsto> ''chat.message''])"


text \<open>
  Iterations of the supervisor's loop: the read loses the connection and the recovery
  fails; the read loses the connection and the recovery succeeds; the read raises an
  error of no class the loop knows; the read returns.
\<close>

definition conn_failure :: iteration where
  "conn_failure =
     \<lparr>body = Some (Exn RedisConnectionError ''Connection refused''), ensure_inbox = None,
      ensure_internal = None, recover = Some (Exn RedisConnectionError ''Connection refused'')\<rparr>"

definition conn_recovered :: iteration where
  "conn_recovered =
     \<lparr>body = Some (Exn RedisConnectionError ''Connection refused''), ensure_inbox = None,
      ensure_internal = None, recover = None\<rparr>"

definition generic_failure :: iteration where
  "generic_failure =
     \<lparr>body = Some (Exn OtherError ''unexpected''), ensure_inbox = None,
      ensure_internal = None, recover = None\<rparr>"

definition quiet_iteration :: iteration where
  "quiet_iteration = \<lparr>body = None, ensure_inbox = None, ensure_internal = None, recover = None\<rparr>"

text \<open>
  The connections of a processor that \<^verbatim>\<open>__init__\<close> has just built, and the files
  and arguments of a run of the substitution script: the requirements file has a line
  ended by a lone carriage return, a token line indented by U+00A0 and ended by
  carriage return and line feed, and a \<open>git+https\<close> line without the placeholder.
\<close>

definition fresh :: connections where
  "fresh = \<lparr>redis = None, mongo = None, mongo_db = None, clients = 0, calls = []\<rparr>"



section \<open>Properties of the sanitizer and of parser selection\<close>

lemma fix_seq_field_other: "fix_seq_field L k d = Inr r \<Longrightarrow> k' \<noteq> k \<Longrightarrow> r k' = d k'"
  by (auto simp: fix_seq_field_def split: option.splits pyval.splits sum.splits if_splits)


lemma fix_dat_other: "fix_dat L d = Inr r \<Longrightarrow> k' \<noteq> ''dat'' \<Longrightarrow> r k' = d k'"
  by (auto simp: fix_dat_def split: option.splits pyval.splits sum.splits if_splits)

lemma sanitize_envelope_steps:
  assumes "sanitize_envelope L d = Inr r"
  shows "\<exists>r1 r2 r3. fix_seq_field L ''c_seq'' d = Inr r1 \<and> fix_seq_field L ''seq'' r1 = Inr r2 \<and>
           fix_rec L r2 = Inr r3 \<and> fix_dat L r3 = Inr r"
  using assms by (auto simp: sanitize_envelope_def split: sum.splits)

text \<open>
  What leaves the sanitizer: an exception of \<^verbatim>\<open>int\<close> that is no \<open>ValueError\<close>, or
  an exception of \<^verbatim>\<open>json.loads\<close> that is no \<open>JSONDecodeError\<close>; nothing else.
\<close>

lemma fix_seq_field_raises:
  "fix_seq_field L k d = Inl e \<Longrightarrow> \<exists>s. py_int L s = Inl e \<and> \<not> is_ValueError e"
  by (auto simp: fix_seq_field_def split: option.splits pyval.splits sum.splits if_splits)

lemma fix_rec_raises:
  "fix_rec L d = Inl e \<Longrightarrow> \<exists>s. json_loads L s = Inl e \<and> \<not> is_JSONDecodeError e"
  by (auto simp: fix_rec_def split: option.splits pyval.splits sum.splits if_splits)

lemma fix_dat_raises:
  "fix_dat L d = Inl e \<Longrightarrow> \<exists>s. json_loads L s = Inl e \<and> \<not> is_JSONDecodeError e"
  by (auto simp: fix_dat_def split: option.splits pyval.splits sum.splits if_splits)

lemma sanitizer_raises_only:
  assumes "sanitize_envelope L d = Inl e"
  shows "(\<exists>s. py_int L s = Inl e \<and> \<not> is_ValueError e) \<or>
         (\<exists>s. json_loads L s = Inl e \<and> \<not> is_JSONDecodeError e)"
proof (cases "fix_seq_field L ''c_seq'' d")
  case (Inl e1)
  then show ?thesis
    using assms fix_seq_field_raises [of L "''c_seq''" d] by (simp add: sanitize_envelope_def)
next
  case r1: (Inr r1)
  show ?thesis
  proof (cases "fix_seq_field L ''seq'' r1")
    case (Inl e2)
    then show ?thesis
      using assms r1 fix_seq_field_raises [of L "''seq''" r1] by (simp add: sanitize_envelope_def)
  next
    case r2: (Inr r2)
    show ?thesis
    proof (cases "fix_rec L r2")
      case (Inl e3)
      then show ?thesis
        using assms r1 r2 fix_rec_raises [of L r2] by (simp add: sanitize_envelope_def)
    next
      case (Inr r3)
      then show ?thesis
        using assms r1 r2 fix_dat_raises [of L r3] by (simp add: sanitize_envelope_def)
    qed
  qed
qed

lemma long_digits_length: "length long_digits = 4301"
  by (simp only: long_digits_def length_replicate)

lemma long_digits_not_empty: "long_digits \<noteq> []"
  using long_digits_length by auto

lemma long_digits_set: "set long_digits = {CHR ''1''}"
  by (simp only: long_digits_def set_replicate_conv_if) simp

lemma long_numeral:
  "all_digits long_digits" "max_str_digits < length long_digits"
  by (simp_all add: all_digits_def long_digits_not_empty list_all_iff long_digits_set digit_val_def
      long_digits_length max_str_digits_def)

lemma long_digits_hd: "hd long_digits = CHR ''1''"
  by (simp add: long_digits_def hd_replicate)

lemma long_loads: "json_loads example_lib long_digits = Inl digits_limit_error"
  by (simp add: example_lib_def numeral_json_def long_numeral long_digits_hd)

lemma long_int: "py_int example_lib long_digits = Inl digits_limit_error"
  by (simp add: example_lib_def numeral_int_def long_numeral)

lemma limit_error_class:
  "\<not> is_JSONDecodeError digits_limit_error" "is_ValueError digits_limit_error"
  by (simp_all add: is_JSONDecodeError_def is_ValueError_def digits_limit_error_def)

lemma long_rec_run:
  "sanitize_envelope example_lib [''rec'' \<mapsto> PStr long_digits] =
     Inl digits_limit_error"
  by (simp add: sanitize_envelope_def fix_seq_field_def fix_rec_def long_loads limit_error_class)

text \<open>
  Claim C4 does not hold of the code. The blocks for \<open>rec\<close> and \<open>dat\<close> catch
  \<^verbatim>\<open>json.JSONDecodeError\<close> only, and \<^verbatim>\<open>json.loads\<close> raises a plain
  \<open>ValueError\<close> on an integer literal of more than 4300 digits: for the field map
  \<open>{rec: "11...1"}\<close> with 4301 digits the sanitizer raises. The blocks for \<open>c_seq\<close>
  and \<open>seq\<close> catch \<^verbatim>\<open>ValueError\<close>, and give 0 for the same text.
\<close>

theorem sanitizer_raises_on_long_numeral:
  "json_loads example_lib long_digits = Inl digits_limit_error \<and>
   \<not> is_JSONDecodeError digits_limit_error \<and>
   sanitize_envelope example_lib [''rec'' \<mapsto> PStr long_digits] =
     Inl digits_limit_error \<and>
   sanitize_envelope example_lib [''c_seq'' \<mapsto> PStr long_digits] =
     Inr [''c_seq'' \<mapsto> PInt 0]"
proof -
  note ne = long_digits_not_empty
  have c: "sanitize_envelope example_lib [''c_seq'' \<mapsto> PStr long_digits] =
      Inr [''c_seq'' \<mapsto> PInt 0]"
    using ne
    by (simp add: sanitize_envelope_def fix_seq_field_def fix_rec_def fix_dat_def long_int
        limit_error_class)
  show ?thesis
    using long_loads limit_error_class long_rec_run c by simp
qed



lemma seven: "py_int example_lib ''7'' = Inr 7"
  by (simp add: example_lib_def numeral_int_def all_digits_def digit_val_def max_str_digits_def)


lemma five: "json_loads example_lib ''5'' = Inr (PInt 5)"
  by (simp add: example_lib_def numeral_json_def all_digits_def digit_val_def max_str_digits_def)



lemma fix_rec_at:
  assumes "fix_rec L d = Inr r" and "d ''rec'' = Some (PStr s)" and "json_loads L s = Inr v"
  shows "r ''rec'' = Some v"
  using assms by (auto simp: fix_rec_def split: option.splits pyval.splits sum.splits if_splits)

text \<open>
  Claim C9. When \<open>rec\<close> is a text that \<^verbatim>\<open>json.loads\<close> decodes to a value that is
  not a list, \<^verbatim>\<open>sanitize_envelope\<close> (whenever it returns) has stored that value:
  after sanitization \<open>rec\<close> is not a list.
\<close>

theorem rec_json_non_list:
  assumes "sanitize_envelope L d = Inr r"
    and "d ''rec'' = Some (PStr s)" and "json_loads L s = Inr v" and "\<not> is_pylist v"
  shows "\<exists>x. r ''rec'' = Some x \<and> x = v \<and> \<not> is_pylist x"
proof -
  obtain r1 r2 r3 where s1: "fix_seq_field L ''c_seq'' d = Inr r1"
    and s2: "fix_seq_field L ''seq'' r1 = Inr r2"
    and s3: "fix_rec L r2 = Inr r3" and s4: "fix_dat L r3 = Inr r"
    using sanitize_envelope_steps [OF assms(1)] by blast
  have "r2 ''rec'' = d ''rec''"
    using fix_seq_field_other [OF s1, of "''rec''"] fix_seq_field_other [OF s2, of "''rec''"] by simp
  then have "r3 ''rec'' = Some v"
    using fix_rec_at [OF s3 _ assms(3)] assms(2) by simp
  then have "r ''rec'' = Some v"
    using fix_dat_other [OF s4, of "''rec''"] by simp
  then show ?thesis using assms(4) by simp
qed

lemma rec_run:
  "sanitize_envelope example_lib [''rec'' \<mapsto> PStr ''5''] = Inr [''rec'' \<mapsto> PInt 5]"
  by (simp add: sanitize_envelope_def fix_seq_field_def fix_rec_def fix_dat_def five)

theorem rec_json_non_list_witness:
  "sanitize_envelope example_lib [''rec'' \<mapsto> PStr ''5''] = Inr [''rec'' \<mapsto> PInt 5] \<and>
   json_loads example_lib ''5'' = Inr (PInt 5) \<and> \<not> is_pylist (PInt 5) \<and>
   [''rec'' \<mapsto> PInt 5] ''rec'' = Some (PInt 5)"
  using rec_json_non_list [OF rec_run _ five] rec_run five
  by simp

text \<open>
  Claim C3, amended. For an event type with none of the four prefixes,
  \<^verbatim>\<open>_parse_event\<close> first runs the sanitizer on a copy of the decoded field map.
  When that call returns, \<^verbatim>\<open>_parse_event\<close> returns the decoded field map it was
  given, unchanged, and drops the sanitized copy; when that call raises,
  \<^verbatim>\<open>_parse_event\<close> raises the same exception. So whatever it returns is the
  map it was given.
\<close>

theorem parse_event_other_returns_input:
  assumes "\<not> startswith et ''account.''" and "\<not> startswith et ''payment.''"
    and "\<not> startswith et ''customer.''" and "\<not> startswith et ''application.''"
  shows "(\<forall>r. sanitize_envelope L d = Inr r \<longrightarrow> parse_event L et d = Inr (RawEvent d)) \<and>
         (\<forall>e. sanitize_envelope L d = Inl e \<longrightarrow> parse_event L et d = Inl e) \<and>
         (\<forall>p. parse_event L et d = Inr p \<longrightarrow> p = RawEvent d)"
  using assms by (auto simp: parse_event_def split: sum.splits)

lemma chat_prefixes:
  "\<not> startswith ''chat.message'' ''account.''" "\<not> startswith ''chat.message'' ''payment.''"
  "\<not> startswith ''chat.message'' ''customer.''" "\<not> startswith ''chat.message'' ''application.''"
  by (simp_all add: startswith_def)

lemma chat_seq_run:
  "sanitize_envelope example_lib [''c_seq'' \<mapsto> PStr ''7''] = Inr [''c_seq'' \<mapsto> PInt 7]"
  by (simp add: sanitize_envelope_def fix_seq_field_def fix_rec_def fix_dat_def seven)

theorem parse_event_other_returns_input_witness:
  "\<not> startswith ''chat.message'' ''account.'' \<and> \<not> startswith ''chat.message'' ''payment.'' \<and>
   \<not> startswith ''chat.message'' ''customer.'' \<and> \<not> startswith ''chat.message'' ''application.'' \<and>
   sanitize_envelope example_lib [''c_seq'' \<mapsto> PStr ''7''] = Inr [''c_seq'' \<mapsto> PInt 7] \<and>
   parse_event example_lib ''chat.message'' [''c_seq'' \<mapsto> PStr ''7''] =
     Inr (RawEvent [''c_seq'' \<mapsto> PStr ''7'']) \<and>
   sanitize_envelope example_lib [''rec'' \<mapsto> PStr long_digits] =
     Inl digits_limit_error \<and>
   parse_event example_lib ''chat.message'' [''rec'' \<mapsto> PStr long_digits] =
     Inl digits_limit_error"
proof -
  have kept: "parse_event example_lib ''chat.message'' [''c_seq'' \<mapsto> PStr ''7''] =
      Inr (RawEvent [''c_seq'' \<mapsto> PStr ''7''])"
    using parse_event_other_returns_input [OF chat_prefixes] chat_seq_run by blast
  have raised: "parse_event example_lib ''chat.message'' [''rec'' \<mapsto> PStr long_digits] =
      Inl digits_limit_error"
    using parse_event_other_returns_input [OF chat_prefixes] long_rec_run by blast
  show ?thesis
    by (intro conjI chat_prefixes chat_seq_run kept long_rec_run raised)
qed

text \<open>
  Claim C3 as stated fails: for the event type \<open>chat.message\<close> and the fields
  \<open>{c_seq: ""}\<close> the sanitizer gives \<open>{c_seq: 0}\<close>, and \<^verbatim>\<open>_parse_event\<close> does not
  return it.
\<close>

theorem parse_event_sanitized_counterexample:
  "sanitize_envelope example_lib [''c_seq'' \<mapsto> PStr []] = Inr [''c_seq'' \<mapsto> PInt 0] \<and>
   \<not> startswith ''chat.message'' ''account.'' \<and> \<not> startswith ''chat.message'' ''payment.'' \<and>
   \<not> startswith ''chat.message'' ''customer.'' \<and> \<not> startswith ''chat.message'' ''application.'' \<and>
   parse_event example_lib ''chat.message'' [''c_seq'' \<mapsto> PStr []] \<noteq>
     Inr (RawEvent [''c_seq'' \<mapsto> PInt 0])"
proof -
  have s: "sanitize_envelope example_lib [''c_seq'' \<mapsto> PStr []] = Inr [''c_seq'' \<mapsto> PInt 0]"
    by (simp add: sanitize_envelope_def fix_seq_field_def fix_rec_def fix_dat_def)
  have ne: "[''c_seq'' \<mapsto> PStr []] \<noteq> [''c_seq'' \<mapsto> PInt 0]"
  proof
    assume "[''c_seq'' \<mapsto> PStr []] = [''c_seq'' \<mapsto> PInt 0]"
    then have "[''c_seq'' \<mapsto> PStr []] ''c_seq'' = [''c_seq'' \<mapsto> PInt 0] ''c_seq''" by simp
    then show False by simp
  qed
  show ?thesis
    using ne by (simp add: s parse_event_def startswith_def)
qed

section \<open>Properties of the dispatch\<close>

lemmas broker_defs = redis_exists_def redis_setex_def redis_xack_def redis_xadd_def broker_call_def
  move_to_dlq_def

text \<open>
  The events of the \<^verbatim>\<open>try\<close> body: nothing, one \<^verbatim>\<open>xack\<close> (a duplicate, or no
  handler), or a prefix of handler entry, handler return, \<^verbatim>\<open>setex\<close>, \<^verbatim>\<open>xack\<close>
  that stops where something raised.
\<close>

lemma process_body_outcomes:
  assumes "process_body L cfg handlers message stream w = (rb, w1)"
  shows "\<exists>bev. trace w1 = trace w @ bev \<and>
           (bev = [] \<and> rb \<noteq> None
            \<or> bev = [Xack stream (consumer_group cfg) (fst message)] \<and> rb = None
            \<or> bev = [HandlerInvoked (derive_event_type (snd message))] \<and> rb \<noteq> None
            \<or> bev = [HandlerInvoked (derive_event_type (snd message)),
                      HandlerCommitted (derive_event_type (snd message))] \<and>
                rb \<noteq> None \<and> sched w (ncalls w + 1) \<noteq> None
            \<or> bev = [HandlerInvoked (derive_event_type (snd message)),
                      HandlerCommitted (derive_event_type (snd message)),
                      Setex (dedup_key stream (fst message)) (dedup_ttl_seconds cfg) ''1''] \<and>
                rb \<noteq> None \<and> sched w (ncalls w + 2) \<noteq> None
            \<or> bev = [HandlerInvoked (derive_event_type (snd message)),
                      HandlerCommitted (derive_event_type (snd message)),
                      Setex (dedup_key stream (fst message)) (dedup_ttl_seconds cfg) ''1'',
                      Xack stream (consumer_group cfg) (fst message)] \<and> rb = None)"
  using assms
  by (auto simp: process_body_def broker_defs Let_def
      split: option.splits sum.splits if_splits prod.splits bool.splits)

text \<open>
  The events of the \<^verbatim>\<open>except Exception\<close> clause: nothing, a DLQ append, or a DLQ
  append and an \<^verbatim>\<open>xack\<close>; an append only after the body raised with the delivery
  count at the ceiling.
\<close>

lemma process_message_outcomes:
  assumes "process_message L cfg now handlers message stream n w = (r, w')"
    and "process_body L cfg handlers message stream w = (rb, w1)"
  shows "\<exists>dev. trace w' = trace w1 @ dev \<and>
           (dev = [] \<and> (rb = None \<longrightarrow> r = None)
            \<or> (\<exists>entry. dev = [Xadd (dlq_stream cfg) entry]) \<and> rb \<noteq> None \<and> max_retries cfg \<le> n
            \<or> (\<exists>entry. dev = [Xadd (dlq_stream cfg) entry,
                                Xack stream (consumer_group cfg) (fst message)]) \<and>
                rb \<noteq> None \<and> max_retries cfg \<le> n)"
  using assms
  by (auto simp: process_message_def broker_defs
      split: option.splits if_splits prod.splits)

text \<open>The four runs of the examples, evaluated.\<close>

lemma chat_event_type: "derive_event_type [''typ'' \<mapsto> ''chat.message''] = ''chat.message''"
  by (simp add: derive_event_type_def)

lemma chat_parse:
  "parse_event example_lib ''chat.message'' [''typ'' \<mapsto> PStr ''chat.message''] =
     Inr (RawEvent [''typ'' \<mapsto> PStr ''chat.message''])"
  by (simp add: parse_event_def sanitize_envelope_def fix_seq_field_def fix_rec_def fix_dat_def
      startswith_def)

lemmas run_defs = process_message_def process_body_def broker_defs Let_def emitted_def dedup_key_def
  example_settings_def quiet_world_def seen_world_def ack_fault_world_def
  failing_handler_def writing_handler_def chat_message_def chat_event_type chat_parse
  conn_class_def is_Exception_def eval_nat_numeral

lemma failing_run:
  "process_message example_lib example_settings ''2026-01-01T00:00:00''
      [''chat.message'' \<mapsto> failing_handler] chat_message ''inbox'' 3 quiet_world =
   (None, quiet_world\<lparr>ncalls := 3,
       trace := [HandlerInvoked ''chat.message'',
                 Xadd ''dlq'' [''typ'' \<mapsto> ''chat.message'', ''original_message_id'' \<mapsto> ''1-0'',
                    ''error'' \<mapsto> ''boom'', ''moved_at'' \<mapsto> ''2026-01-01T00:00:00''],
                 Xack ''inbox'' ''servicing'' ''1-0'']\<rparr>)"
  by (simp add: run_defs)

lemma writing_run:
  "process_message example_lib example_settings ''2026-01-01T00:00:00''
      [''chat.message'' \<mapsto> writing_handler] chat_message ''inbox'' 1 quiet_world =
   (None, quiet_world\<lparr>ncalls := 3, db := 1,
       dedup_keys := (\<lambda>k. False)(''dedup:inbox:1-0'' := True),
       trace := [HandlerInvoked ''chat.message'', HandlerCommitted ''chat.message'',
                 Setex ''dedup:inbox:1-0'' 86400 ''1'', Xack ''inbox'' ''servicing'' ''1-0'']\<rparr>)"
  by (simp add: run_defs)

lemma seen_run:
  "process_message example_lib example_settings ''2026-01-01T00:00:00''
      [''chat.message'' \<mapsto> writing_handler] chat_message ''inbox'' 1 seen_world =
   (None, seen_world\<lparr>ncalls := 2, trace := [Xack ''inbox'' ''servicing'' ''1-0'']\<rparr>)"
  by (simp add: run_defs)

lemma ack_fault_run:
  "process_message example_lib example_settings ''2026-01-01T00:00:00''
      [''chat.message'' \<mapsto> failing_handler] chat_message ''inbox'' 3 ack_fault_world =
   (None, ack_fault_world\<lparr>ncalls := 3,
       trace := [HandlerInvoked ''chat.message'',
                 Xadd ''dlq'' [''typ'' \<mapsto> ''chat.message'', ''original_message_id'' \<mapsto> ''1-0'',
                    ''error'' \<mapsto> ''boom'', ''moved_at'' \<mapsto> ''2026-01-01T00:00:00'']]\<rparr>)"
  by (simp add: run_defs)

text \<open>
  Claim C1, amended. In the events of one \<^verbatim>\<open>_process_message\<close>: no \<^verbatim>\<open>setex\<close>
  before the handler has returned; once a handler was entered, no \<^verbatim>\<open>xack\<close> before a
  \<^verbatim>\<open>setex\<close> or a DLQ append; when the handler returns and neither \<^verbatim>\<open>setex\<close> nor
  \<^verbatim>\<open>xack\<close> fails, the events are handler entry, handler return, \<^verbatim>\<open>setex\<close>,
  \<^verbatim>\<open>xack\<close>, in that order. When the handler raises (it was entered and did not
  return), no dedup marker is written, and an \<^verbatim>\<open>xack\<close> is seen only with the
  delivery count at \<^verbatim>\<open>max_retries\<close> or above, after the DLQ append.
\<close>

theorem ack_after_commit:
  assumes "process_message L cfg now handlers message stream n w = (r, w')"
  shows "happens_before is_committed is_setex (emitted w w') \<and>
         ((\<exists>x \<in> set (emitted w w'). is_invoked x) \<longrightarrow>
            happens_before (\<lambda>x. is_setex x \<or> is_xadd x) is_xack (emitted w w')) \<and>
         ((\<exists>x \<in> set (emitted w w'). is_committed x) \<and>
          sched w (ncalls w + 1) = None \<and> sched w (ncalls w + 2) = None \<longrightarrow>
            r = None \<and>
            emitted w w' =
              [HandlerInvoked (derive_event_type (snd message)),
               HandlerCommitted (derive_event_type (snd message)),
               Setex (dedup_key stream (fst message)) (dedup_ttl_seconds cfg) ''1'',
               Xack stream (consumer_group cfg) (fst message)]) \<and>
         ((\<exists>x \<in> set (emitted w w'). is_invoked x) \<and>
          (\<forall>x \<in> set (emitted w w'). \<not> is_committed x) \<longrightarrow>
            (\<forall>x \<in> set (emitted w w'). \<not> is_setex x) \<and>
            ((\<exists>x \<in> set (emitted w w'). is_xack x) \<longrightarrow>
               max_retries cfg \<le> n \<and> happens_before is_xadd is_xack (emitted w w')))"
proof -
  obtain rb w1 where body: "process_body L cfg handlers message stream w = (rb, w1)"
    by (cases "process_body L cfg handlers message stream w")
  obtain bev where bev: "trace w1 = trace w @ bev"
    and shapes: "bev = [] \<and> rb \<noteq> None
            \<or> bev = [Xack stream (consumer_group cfg) (fst message)] \<and> rb = None
            \<or> bev = [HandlerInvoked (derive_event_type (snd message))] \<and> rb \<noteq> None
            \<or> bev = [HandlerInvoked (derive_event_type (snd message)),
                      HandlerCommitted (derive_event_type (snd message))] \<and>
                rb \<noteq> None \<and> sched w (ncalls w + 1) \<noteq> None
            \<or> bev = [HandlerInvoked (derive_event_type (snd message)),
                      HandlerCommitted (derive_event_type (snd message)),
                      Setex (dedup_key stream (fst message)) (dedup_ttl_seconds cfg) ''1''] \<and>
                rb \<noteq> None \<and> sched w (ncalls w + 2) \<noteq> None
            \<or> bev = [HandlerInvoked (derive_event_type (snd message)),
                      HandlerCommitted (derive_event_type (snd message)),
                      Setex (dedup_key stream (fst message)) (dedup_ttl_seconds cfg) ''1'',
                      Xack stream (consumer_group cfg) (fst message)] \<and> rb = None"
    using process_body_outcomes [OF body] by blast
  obtain dev where dev: "trace w' = trace w1 @ dev"
    and dlq: "dev = [] \<and> (rb = None \<longrightarrow> r = None)
            \<or> (\<exists>entry. dev = [Xadd (dlq_stream cfg) entry]) \<and> rb \<noteq> None \<and> max_retries cfg \<le> n
            \<or> (\<exists>entry. dev = [Xadd (dlq_stream cfg) entry,
                                Xack stream (consumer_group cfg) (fst message)]) \<and>
                rb \<noteq> None \<and> max_retries cfg \<le> n"
    using process_message_outcomes [OF assms body] by blast
  have em: "emitted w w' = bev @ dev"
    by (simp add: emitted_def bev dev)
  show ?thesis
    unfolding em using shapes dlq
    by (elim disjE conjE exE) simp_all
qed

theorem ack_after_commit_witness:
  "emitted quiet_world
     (snd (process_message example_lib example_settings ''2026-01-01T00:00:00''
        [''chat.message'' \<mapsto> writing_handler] chat_message ''inbox'' 1 quiet_world)) =
     [HandlerInvoked ''chat.message'', HandlerCommitted ''chat.message'',
      Setex ''dedup:inbox:1-0'' 86400 ''1'', Xack ''inbox'' ''servicing'' ''1-0''] \<and>
   happens_before is_committed is_setex
     (emitted quiet_world
        (snd (process_message example_lib example_settings ''2026-01-01T00:00:00''
           [''chat.message'' \<mapsto> writing_handler] chat_message ''inbox'' 1 quiet_world))) \<and>
   happens_before (\<lambda>x. is_setex x \<or> is_xadd x) is_xack
     (emitted quiet_world
        (snd (process_message example_lib example_settings ''2026-01-01T00:00:00''
           [''chat.message'' \<mapsto> writing_handler] chat_message ''inbox'' 1 quiet_world)))"
  using ack_after_commit [OF writing_run]
  unfolding writing_run
  by (simp add: emitted_def quiet_world_def chat_message_def chat_event_type dedup_key_def
      example_settings_def)

text \<open>
  Claim C1 as stated fails: the handler raises at the third delivery with
  \<^verbatim>\<open>max_retries = 3\<close>, and the message is appended to the DLQ and acked.
\<close>

theorem ack_after_handler_error_counterexample:
  "failing_handler 0 (RawEvent [''typ'' \<mapsto> PStr ''chat.message'']) =
     (Some (Exn OtherError ''boom''), 0) \<and>
   emitted quiet_world
     (snd (process_message example_lib example_settings ''2026-01-01T00:00:00''
        [''chat.message'' \<mapsto> failing_handler] chat_message ''inbox'' 3 quiet_world)) =
     [HandlerInvoked ''chat.message'',
      Xadd ''dlq'' [''typ'' \<mapsto> ''chat.message'', ''original_message_id'' \<mapsto> ''1-0'',
         ''error'' \<mapsto> ''boom'', ''moved_at'' \<mapsto> ''2026-01-01T00:00:00''],
      Xack ''inbox'' ''servicing'' ''1-0'']"
  unfolding failing_run
  by (simp add: emitted_def quiet_world_def failing_handler_def)

text \<open>
  Claim C2, amended. A message is not a duplicate, its parser or its handler raises an
  exception that is neither of the connection class nor a cancellation, and the
  delivery count is at \<^verbatim>\<open>max_retries\<close> or above. Then (a) the DLQ entry (the fields,
  \<open>original_message_id\<close>, \<open>error\<close>, \<open>moved_at\<close>) is appended and the message is
  acked, or (b) the message is not acked; (b) happens exactly when the append or the
  \<^verbatim>\<open>xack\<close> after it raises. When the append raises nothing is appended; when the
  \<^verbatim>\<open>xack\<close> raises the entry stays appended. A connection-class error of either is
  swallowed, any other error leaves \<^verbatim>\<open>_process_message\<close>.
\<close>

theorem dlq_finality:
  assumes run: "process_message L cfg now handlers message stream n w = (r, w')"
    and absent: "\<not> dedup_keys w (dedup_key stream (fst message))"
    and reached: "sched w (ncalls w) = None"
    and raises:
      "parse_event L (derive_event_type (snd message)) (map_option PStr \<circ> snd message) = Inl e
       \<or> (\<exists>pe h d.
             parse_event L (derive_event_type (snd message)) (map_option PStr \<circ> snd message) = Inr pe \<and>
             handlers (derive_event_type (snd message)) = Some h \<and> h (db w) pe = (Some e, d))"
    and kind: "\<not> conn_class e" "is_Exception e"
    and count: "max_retries cfg \<le> n"
  shows "(case sched w (ncalls w + 1) of
           Some e2 \<Rightarrow>
             filter (\<lambda>x. is_xadd x \<or> is_xack x) (emitted w w') = [] \<and>
             r = (if conn_class e2 then None else Some e2)
         | None \<Rightarrow>
             (case sched w (ncalls w + 2) of
                Some e2 \<Rightarrow>
                  filter (\<lambda>x. is_xadd x \<or> is_xack x) (emitted w w') =
                    [Xadd (dlq_stream cfg)
                       ((snd message)(''original_message_id'' \<mapsto> fst message, ''error'' \<mapsto> msg e,
                          ''moved_at'' \<mapsto> now))] \<and>
                  r = (if conn_class e2 then None else Some e2)
              | None \<Rightarrow>
                  filter (\<lambda>x. is_xadd x \<or> is_xack x) (emitted w w') =
                    [Xadd (dlq_stream cfg)
                       ((snd message)(''original_message_id'' \<mapsto> fst message, ''error'' \<mapsto> msg e,
                          ''moved_at'' \<mapsto> now)),
                     Xack stream (consumer_group cfg) (fst message)] \<and>
                  r = None))"
  using assms
  by (auto simp: process_message_def process_body_def broker_defs Let_def emitted_def
      split: option.splits sum.splits if_splits prod.splits bool.splits)

theorem dlq_finality_witness:
  "\<not> dedup_keys quiet_world (dedup_key ''inbox'' (fst chat_message)) \<and>
   sched quiet_world (ncalls quiet_world) = None \<and>
   parse_event example_lib (derive_event_type (snd chat_message))
     (map_option PStr \<circ> snd chat_message) = Inr (RawEvent [''typ'' \<mapsto> PStr ''chat.message'']) \<and>
   failing_handler (db quiet_world) (RawEvent [''typ'' \<mapsto> PStr ''chat.message'']) =
     (Some (Exn OtherError ''boom''), 0) \<and>
   \<not> conn_class (Exn OtherError ''boom'') \<and> is_Exception (Exn OtherError ''boom'') \<and>
   max_retries example_settings \<le> 3 \<and>
   filter (\<lambda>x. is_xadd x \<or> is_xack x)
     (emitted quiet_world
        (snd (process_message example_lib example_settings ''2026-01-01T00:00:00''
           [''chat.message'' \<mapsto> failing_handler] chat_message ''inbox'' 3 quiet_world))) =
     [Xadd ''dlq'' [''typ'' \<mapsto> ''chat.message'', ''original_message_id'' \<mapsto> ''1-0'',
         ''error'' \<mapsto> ''boom'', ''moved_at'' \<mapsto> ''2026-01-01T00:00:00''],
      Xack ''inbox'' ''servicing'' ''1-0'']"
proof -
  have absent: "\<not> dedup_keys quiet_world (dedup_key ''inbox'' (fst chat_message))"
    by (simp add: quiet_world_def)
  have reached: "sched quiet_world (ncalls quiet_world) = None"
    by (simp add: quiet_world_def)
  have parsed: "parse_event example_lib (derive_event_type (snd chat_message))
      (map_option PStr \<circ> snd chat_message) = Inr (RawEvent [''typ'' \<mapsto> PStr ''chat.message''])"
    by (simp add: chat_message_def chat_event_type chat_parse)
  have handled: "failing_handler (db quiet_world) (RawEvent [''typ'' \<mapsto> PStr ''chat.message'']) =
      (Some (Exn OtherError ''boom''), 0)"
    by (simp add: failing_handler_def quiet_world_def)
  have registered: "[''chat.message'' \<mapsto> failing_handler] (derive_event_type (snd chat_message)) =
      Some failing_handler"
    by (simp add: chat_message_def chat_event_type)
  have raises:
    "parse_event example_lib (derive_event_type (snd chat_message))
        (map_option PStr \<circ> snd chat_message) = Inl (Exn OtherError ''boom'')
     \<or> (\<exists>pe h d.
           parse_event example_lib (derive_event_type (snd chat_message))
             (map_option PStr \<circ> snd chat_message) = Inr pe \<and>
           [''chat.message'' \<mapsto> failing_handler] (derive_event_type (snd chat_message)) = Some h \<and>
           h (db quiet_world) pe = (Some (Exn OtherError ''boom''), d))"
    using parsed handled registered by blast
  have kind: "\<not> conn_class (Exn OtherError ''boom'')" "is_Exception (Exn OtherError ''boom'')"
    by (simp_all add: conn_class_def is_Exception_def)
  have count: "max_retries example_settings \<le> 3"
    by (simp add: example_settings_def)
  show ?thesis
    using dlq_finality [OF failing_run absent reached raises kind count]
      absent reached parsed handled kind count
    unfolding failing_run
    by (simp add: quiet_world_def example_settings_def chat_message_def emitted_def)
qed

text \<open>
  Claim C2 as stated fails: the handler raises at the third delivery, the DLQ append
  succeeds and the \<^verbatim>\<open>xack\<close> after it loses the connection. The entry is appended and
  the message is not acked: neither (a) nor (b).
\<close>

theorem dlq_append_without_ack_counterexample:
  "failing_handler 0 (RawEvent [''typ'' \<mapsto> PStr ''chat.message'']) =
     (Some (Exn OtherError ''boom''), 0) \<and>
   max_retries example_settings \<le> 3 \<and>
   emitted ack_fault_world
     (snd (process_message example_lib example_settings ''2026-01-01T00:00:00''
        [''chat.message'' \<mapsto> failing_handler] chat_message ''inbox'' 3 ack_fault_world)) =
     [HandlerInvoked ''chat.message'',
      Xadd ''dlq'' [''typ'' \<mapsto> ''chat.message'', ''original_message_id'' \<mapsto> ''1-0'',
         ''error'' \<mapsto> ''boom'', ''moved_at'' \<mapsto> ''2026-01-01T00:00:00'']]"
  unfolding ack_fault_run
  by (simp add: emitted_def ack_fault_world_def quiet_world_def failing_handler_def
      example_settings_def)

text \<open>
  Claim C8. While the dedup key of (stream, entry id) is present, a redelivery enters
  no handler and leaves the document store as it is; the command after the
  \<^verbatim>\<open>exists\<close> is the \<^verbatim>\<open>xack\<close> of the message, and when neither fails the
  \<^verbatim>\<open>xack\<close> is the only event and \<^verbatim>\<open>_process_message\<close> returns.
\<close>

theorem duplicate_suppressed:
  assumes "process_message L cfg now handlers message stream n w = (r, w')"
    and "dedup_keys w (dedup_key stream (fst message))"
  shows "(\<forall>x \<in> set (emitted w w'). \<not> is_invoked x) \<and> db w' = db w \<and>
         (sched w (ncalls w) = None \<and> sched w (Suc (ncalls w)) = None \<longrightarrow>
            r = None \<and> emitted w w' = [Xack stream (consumer_group cfg) (fst message)])"
  using assms
  by (auto simp: process_message_def process_body_def broker_defs Let_def emitted_def
      split: option.splits sum.splits if_splits prod.splits bool.splits)

theorem duplicate_suppressed_witness:
  "dedup_keys seen_world (dedup_key ''inbox'' (fst chat_message)) \<and>
   sched seen_world (ncalls seen_world) = None \<and>
   sched seen_world (Suc (ncalls seen_world)) = None \<and>
   fst (process_message example_lib example_settings ''2026-01-01T00:00:00''
          [''chat.message'' \<mapsto> writing_handler] chat_message ''inbox'' 1 seen_world) = None \<and>
   emitted seen_world
     (snd (process_message example_lib example_settings ''2026-01-01T00:00:00''
        [''chat.message'' \<mapsto> writing_handler] chat_message ''inbox'' 1 seen_world)) =
     [Xack ''inbox'' ''servicing'' ''1-0'']"
proof -
  have present: "dedup_keys seen_world (dedup_key ''inbox'' (fst chat_message))"
    by (simp add: seen_world_def quiet_world_def dedup_key_def chat_message_def)
  have quiet: "sched seen_world (ncalls seen_world) = None"
    "sched seen_world (Suc (ncalls seen_world)) = None"
    by (simp_all add: seen_world_def quiet_world_def)
  show ?thesis
    using duplicate_suppressed [OF seen_run present] present quiet
    unfolding seen_run
    by (simp add: example_settings_def chat_message_def emitted_def seen_world_def quiet_world_def)
qed

section \<open>Properties of the supervisor's loop\<close>

lemma reconnect_failure_step:
  assumes "reconnect_failure it"
  shows "loop_iteration it s =
    (None, s\<lparr>sleeps := sleeps s @ [reconnect_backoff s],
               reconnect_backoff := min (reconnect_backoff s * 2) max_reconnect_backoff\<rparr>)"
  using assms
  by (auto simp: reconnect_failure_def loop_iteration_def reconnect_def Let_def conn_class_def
      split: option.splits if_splits)

lemma loop_iteration_invariant:
  assumes "loop_iteration it s = (r, s')"
    and "1 \<le> reconnect_backoff s" and "reconnect_backoff s \<le> max_reconnect_backoff"
    and "\<forall>d \<in> set (sleeps s). 1 \<le> d \<and> d \<le> max_reconnect_backoff"
  shows "1 \<le> reconnect_backoff s' \<and> reconnect_backoff s' \<le> max_reconnect_backoff \<and>
         (\<forall>d \<in> set (sleeps s'). 1 \<le> d \<and> d \<le> max_reconnect_backoff)"
  using assms
  by (auto simp: loop_iteration_def reconnect_def Let_def max_reconnect_backoff_def
      split: option.splits if_splits)

lemma run_loop_invariant:
  assumes "1 \<le> reconnect_backoff s" and "reconnect_backoff s \<le> max_reconnect_backoff"
    and "\<forall>d \<in> set (sleeps s). 1 \<le> d \<and> d \<le> max_reconnect_backoff"
  shows "\<forall>d \<in> set (sleeps (snd (run_loop its s))). 1 \<le> d \<and> d \<le> max_reconnect_backoff"
  using assms
proof (induction its arbitrary: s)
  case Nil
  then show ?case by simp
next
  case (Cons it its)
  obtain r s' where step: "loop_iteration it s = (r, s')"
    by (cases "loop_iteration it s")
  have inv: "1 \<le> reconnect_backoff s' \<and> reconnect_backoff s' \<le> max_reconnect_backoff \<and>
         (\<forall>d \<in> set (sleeps s'). 1 \<le> d \<and> d \<le> max_reconnect_backoff)"
    using loop_iteration_invariant [OF step Cons.prems] .
  show ?case
  proof (cases "running s")
    case False
    then show ?thesis using Cons.prems by simp
  next
    case True
    show ?thesis
    proof (cases r)
      case None
      then show ?thesis
        using True step inv Cons.IH [of s'] by simp
    next
      case (Some e)
      then show ?thesis
        using True step inv by simp
    qed
  qed
qed

lemma burst_sleeps:
  assumes "\<forall>it \<in> set burst. reconnect_failure it" and "running s"
    and "1 \<le> reconnect_backoff s" and "reconnect_backoff s \<le> max_reconnect_backoff"
  shows "\<exists>new. sleeps (snd (run_loop burst s)) = sleeps s @ new \<and> length new = length burst \<and>
           sorted new \<and> (burst \<noteq> [] \<longrightarrow> hd new = reconnect_backoff s) \<and>
           (\<forall>d \<in> set new. reconnect_backoff s \<le> d \<and> d \<le> max_reconnect_backoff)"
  using assms
proof (induction burst arbitrary: s)
  case Nil
  then show ?case by simp
next
  case (Cons it burst)
  define s' where "s' = s\<lparr>sleeps := sleeps s @ [reconnect_backoff s],
               reconnect_backoff := min (reconnect_backoff s * 2) max_reconnect_backoff\<rparr>"
  have step: "loop_iteration it s = (None, s')"
    using Cons.prems(1) by (simp add: reconnect_failure_step s'_def)
  have grow: "reconnect_backoff s \<le> reconnect_backoff s'"
    using Cons.prems(3,4) by (simp add: s'_def max_reconnect_backoff_def)
  have inv: "running s'" "1 \<le> reconnect_backoff s'" "reconnect_backoff s' \<le> max_reconnect_backoff"
    using Cons.prems(2,3,4) by (simp_all add: s'_def max_reconnect_backoff_def)
  obtain new where new: "sleeps (snd (run_loop burst s')) = sleeps s' @ new"
    and len: "length new = length burst" and srt: "sorted new"
    and bnd: "\<forall>d \<in> set new. reconnect_backoff s' \<le> d \<and> d \<le> max_reconnect_backoff"
    using Cons.IH [OF _ inv] Cons.prems(1) by auto
  have run: "run_loop (it # burst) s = run_loop burst s'"
    using Cons.prems(2) step by simp
  have "sleeps (snd (run_loop (it # burst) s)) = sleeps s @ (reconnect_backoff s # new)"
    using run new by (simp add: s'_def)
  moreover have "sorted (reconnect_backoff s # new)"
    using srt bnd grow by auto
  moreover have "\<forall>d \<in> set (reconnect_backoff s # new).
      reconnect_backoff s \<le> d \<and> d \<le> max_reconnect_backoff"
    using bnd grow Cons.prems(4) by auto
  ultimately show ?case
    using len by (intro exI [of _ "reconnect_backoff s # new"]) simp
qed

text \<open>
  Claim C5, amended. Every duration the loop sleeps is between 1 and 30 seconds. In a
  run of consecutive iterations that each fail with a connection-class error (at the
  read, or at the re-creation of the groups after NOGROUP) and whose recovery fails
  too, entered with the backoff at 1, the sleeps are non-decreasing, start at 1 second
  and stay under the cap of 30 seconds. An iteration whose read succeeds sets the
  backoff to 1 and sleeps nothing; a recovery that succeeds sets it to 1.
\<close>

theorem reconnect_backoff_bounds:
  "(\<forall>d \<in> set (sleeps (snd (run_loop its start_state))). 1 \<le> d \<and> d \<le> max_reconnect_backoff) \<and>
   ((\<forall>it \<in> set burst. reconnect_failure it) \<and> running s \<and> reconnect_backoff s = 1 \<longrightarrow>
      (\<exists>new. sleeps (snd (run_loop burst s)) = sleeps s @ new \<and> length new = length burst \<and>
         sorted new \<and> (burst \<noteq> [] \<longrightarrow> hd new = 1) \<and>
         (\<forall>d \<in> set new. 1 \<le> d \<and> d \<le> max_reconnect_backoff))) \<and>
   (body it = None \<longrightarrow>
      loop_iteration it s1 = (None, s1\<lparr>reconnect_backoff := 1\<rparr>)) \<and>
   (recover it = None \<longrightarrow> reconnect_backoff (snd (reconnect it s1)) = 1)"
proof (intro conjI impI)
  show "\<forall>d \<in> set (sleeps (snd (run_loop its start_state))). 1 \<le> d \<and> d \<le> max_reconnect_backoff"
    by (rule run_loop_invariant) (simp_all add: start_state_def max_reconnect_backoff_def)
next
  assume a: "(\<forall>it \<in> set burst. reconnect_failure it) \<and> running s \<and> reconnect_backoff s = 1"
  then have "1 \<le> reconnect_backoff s" "reconnect_backoff s \<le> max_reconnect_backoff"
    by (simp_all add: max_reconnect_backoff_def)
  with a burst_sleeps [of burst s] show "\<exists>new. sleeps (snd (run_loop burst s)) = sleeps s @ new \<and>
      length new = length burst \<and> sorted new \<and> (burst \<noteq> [] \<longrightarrow> hd new = 1) \<and>
      (\<forall>d \<in> set new. 1 \<le> d \<and> d \<le> max_reconnect_backoff)"
    by auto
next
  assume "body it = None"
  then show "loop_iteration it s1 = (None, s1\<lparr>reconnect_backoff := 1\<rparr>)"
    by (simp add: loop_iteration_def)
next
  assume "recover it = None"
  then show "reconnect_backoff (snd (reconnect it s1)) = 1"
    by (simp add: reconnect_def Let_def)
qed

lemma conn_failure_burst: "reconnect_failure conn_failure"
  by (simp add: reconnect_failure_def conn_failure_def conn_class_def is_Exception_def)

lemma seven_failures:
  "sleeps (snd (run_loop (replicate 7 conn_failure) start_state)) = [1, 2, 4, 8, 16, 30, 30]"
  by (simp add: eval_nat_numeral reconnect_failure_step [OF conn_failure_burst] start_state_def
      max_reconnect_backoff_def)

theorem reconnect_backoff_bounds_witness:
  "reconnect_failure conn_failure \<and> running start_state \<and> reconnect_backoff start_state = 1 \<and>
   sleeps (snd (run_loop (replicate 7 conn_failure) start_state)) = [1, 2, 4, 8, 16, 30, 30] \<and>
   sorted [1, 2, 4, 8, 16, 30, 30 :: int] \<and>
   body quiet_iteration = None \<and>
   reconnect_backoff (snd (loop_iteration quiet_iteration
      (snd (run_loop (replicate 7 conn_failure) start_state)))) = 1"
  using reconnect_backoff_bounds [of "replicate 7 conn_failure" "replicate 7 conn_failure" start_state
      quiet_iteration "snd (run_loop (replicate 7 conn_failure) start_state)"]
    conn_failure_burst seven_failures
  by (simp add: start_state_def quiet_iteration_def)

text \<open>
  Claim C5 as stated fails. Three consecutive failing iterations, the first two with a
  connection error and a failed recovery, the third with an unexpected error (Layer 4
  sleeps a fixed second): the sleeps are 1, 2, 1. The same durations come from three
  connection errors of which the second recovers.
\<close>

theorem sleeps_not_monotone_counterexample:
  "body conn_failure \<noteq> None \<and> body generic_failure \<noteq> None \<and> body conn_recovered \<noteq> None \<and>
   run_loop [conn_failure, conn_failure, generic_failure] start_state =
     (None, \<lparr>running = True, reconnect_backoff = 4, sleeps = [1, 2, 1]\<rparr>) \<and>
   run_loop [conn_failure, conn_recovered, conn_failure] start_state =
     (None, \<lparr>running = True, reconnect_backoff = 2, sleeps = [1, 2, 1]\<rparr>) \<and>
   \<not> sorted [1, 2, 1 :: int]"
  by (simp add: conn_failure_def generic_failure_def conn_recovered_def start_state_def
      loop_iteration_def reconnect_def Let_def conn_class_def is_Exception_def
      max_reconnect_backoff_def)

section \<open>Properties of the startup connection\<close>

lemma close_mongo_extends: "\<exists>tail. calls (sleep b (close_mongo s)) = calls s @ tail"
  by (cases "mongo s") (simp_all add: sleep_def close_mongo_def)

lemma connect_mongo_extends:
  "\<exists>tail. calls (snd (connect_mongo as b s)) = calls s @ tail"
proof (induction as arbitrary: b s)
  case Nil
  then show ?case by simp
next
  case (Cons a as)
  obtain r s1 where t: "try_mongo a s = (r, s1)"
    by (cases "try_mongo a s")
  obtain t1 where t1: "calls s1 = calls s @ t1"
    using t by (auto simp: try_mongo_def Let_def split: attempt.splits)
  show ?case
  proof (cases r)
    case None
    then show ?thesis using t t1 by simp
  next
    case (Some e)
    obtain t2 where t2: "calls (sleep b (close_mongo s1)) = calls s1 @ t2"
      using close_mongo_extends by blast
    obtain t3 where t3: "calls (snd (connect_mongo as (min (b * 2) 30) (sleep b (close_mongo s1)))) =
        calls (sleep b (close_mongo s1)) @ t3"
      using Cons.IH by blast
    show ?thesis
      using Some t t1 t2 t3 by simp
  qed
qed

lemma second_attempt_calls:
  "\<exists>tail. calls (snd (connect_mongo (a # rest) b s)) = calls s @ [MongoFactory] @ tail"
proof -
  obtain r s3 where a: "try_mongo a s = (r, s3)"
    by (cases "try_mongo a s")
  have s3: "calls s3 = calls s @ [MongoFactory]"
    using a by (auto simp: try_mongo_def Let_def split: attempt.splits)
  show ?thesis
  proof (cases r)
    case None
    then show ?thesis using a s3 by simp
  next
    case (Some e')
    obtain t2 where t2: "calls (sleep b (close_mongo s3)) = calls s3 @ t2"
      using close_mongo_extends by blast
    obtain t3 where t3: "calls (snd (connect_mongo rest (min (b * 2) 30) (sleep b (close_mongo s3)))) =
        calls (sleep b (close_mongo s3)) @ t3"
      using connect_mongo_extends by blast
    show ?thesis using Some a s3 t2 t3 by simp
  qed
qed

lemma config_not_transient: "cls e = MongoConfigurationError \<Longrightarrow> \<not> mongo_transient e"
  by (simp add: mongo_transient_def)

text \<open>
  Claim C6, amended. The broker phase has returned. If the first attempt of the
  document-store phase raises a configuration error (from the factory or from the
  ping), the error leaves \<^verbatim>\<open>_connect\<close> at once: one call of the factory, no
  sleep, no retry, whatever a later attempt would have done (and at any later attempt
  a configuration error ends the loop the same way). If the first attempt raises a
  transient error, one sleep of 1 second follows and the factory is called again; when
  that second attempt succeeds, \<^verbatim>\<open>_connect\<close> returns and these are all the calls.
  Before the sleep the client held in \<^verbatim>\<open>self.mongo\<close> is closed: the first client,
  when the error came from its ping; the client held on entry, if any, when the
  factory itself raised, and then nothing is closed in a processor that held none.
\<close>

theorem mongo_startup_errors:
  assumes "connect_redis rs 1 s = (Returned, s1)"
  shows "(cls e = MongoConfigurationError \<longrightarrow>
            fst (connect rs (PingRaises e # rest) s) = Raised e \<and>
            calls (snd (connect rs (PingRaises e # rest) s)) = calls s1 @ [MongoFactory] \<and>
            fst (connect rs (FactoryRaises e # rest) s) = Raised e \<and>
            calls (snd (connect rs (FactoryRaises e # rest) s)) = calls s1 @ [MongoFactory] \<and>
            fst (connect_mongo (PingRaises e # rest) b s0) = Raised e \<and>
            calls (snd (connect_mongo (PingRaises e # rest) b s0)) = calls s0 @ [MongoFactory]) \<and>
         (mongo_transient t \<longrightarrow>
            fst (connect rs (PingRaises t # Connected # rest) s) = Returned \<and>
            calls (snd (connect rs (PingRaises t # Connected # rest) s)) =
              calls s1 @ [MongoFactory, MongoClose (Suc (clients s1)), Sleep 1, MongoFactory] \<and>
            mongo (snd (connect rs (PingRaises t # Connected # rest) s)) = Some (Suc (Suc (clients s1))) \<and>
            (\<exists>tail. calls (snd (connect rs (PingRaises t # a # rest) s)) =
               calls s1 @ [MongoFactory, MongoClose (Suc (clients s1)), Sleep 1, MongoFactory] @ tail) \<and>
            fst (connect rs (FactoryRaises t # Connected # rest) s) = Returned \<and>
            calls (snd (connect rs (FactoryRaises t # Connected # rest) s)) =
              calls s1 @ [MongoFactory] @ (case mongo s1 of None \<Rightarrow> [] | Some c \<Rightarrow> [MongoClose c]) @
              [Sleep 1, MongoFactory] \<and>
            mongo (snd (connect rs (FactoryRaises t # Connected # rest) s)) = Some (Suc (clients s1)) \<and>
            (\<exists>tail. calls (snd (connect rs (FactoryRaises t # a # rest) s)) =
               calls s1 @ [MongoFactory] @ (case mongo s1 of None \<Rightarrow> [] | Some c \<Rightarrow> [MongoClose c]) @
               [Sleep 1, MongoFactory] @ tail))"
proof (intro conjI impI)
  assume c: "cls e = MongoConfigurationError"
  show "fst (connect rs (PingRaises e # rest) s) = Raised e"
    using assms c by (simp add: connect_def try_mongo_def Let_def)
  show "calls (snd (connect rs (PingRaises e # rest) s)) = calls s1 @ [MongoFactory]"
    using assms c by (simp add: connect_def try_mongo_def Let_def)
  show "fst (connect rs (FactoryRaises e # rest) s) = Raised e"
    using assms c by (simp add: connect_def try_mongo_def Let_def)
  show "calls (snd (connect rs (FactoryRaises e # rest) s)) = calls s1 @ [MongoFactory]"
    using assms c by (simp add: connect_def try_mongo_def Let_def)
  show "fst (connect_mongo (PingRaises e # rest) b s0) = Raised e"
    using c by (simp add: try_mongo_def Let_def)
  show "calls (snd (connect_mongo (PingRaises e # rest) b s0)) = calls s0 @ [MongoFactory]"
    using c by (simp add: try_mongo_def Let_def)
next
  assume t: "mongo_transient t"
  then have n: "cls t \<noteq> MongoConfigurationError"
    by (auto simp: mongo_transient_def)
  define s2 where "s2 = sleep 1 (close_mongo (snd (try_mongo (PingRaises t) s1)))"
  have s2_calls: "calls s2 = calls s1 @ [MongoFactory, MongoClose (Suc (clients s1)), Sleep 1]"
    by (simp add: s2_def sleep_def close_mongo_def try_mongo_def Let_def)
  have s2_clients: "clients s2 = Suc (clients s1)"
    by (simp add: s2_def sleep_def close_mongo_def try_mongo_def Let_def)
  have retry: "connect rs (PingRaises t # more) s = connect_mongo more 2 s2" for more
    using assms t n by (simp add: connect_def s2_def try_mongo_def Let_def)
  show "fst (connect rs (PingRaises t # Connected # rest) s) = Returned"
    by (simp add: retry try_mongo_def Let_def)
  show "calls (snd (connect rs (PingRaises t # Connected # rest) s)) =
      calls s1 @ [MongoFactory, MongoClose (Suc (clients s1)), Sleep 1, MongoFactory]"
    by (simp add: retry try_mongo_def Let_def s2_calls)
  show "mongo (snd (connect rs (PingRaises t # Connected # rest) s)) = Some (Suc (Suc (clients s1)))"
    by (simp add: retry try_mongo_def Let_def s2_clients)
  have "\<exists>tail. calls (snd (connect_mongo (a # rest) 2 s2)) = calls s2 @ [MongoFactory] @ tail"
    by (rule second_attempt_calls)
  then show "\<exists>tail. calls (snd (connect rs (PingRaises t # a # rest) s)) =
      calls s1 @ [MongoFactory, MongoClose (Suc (clients s1)), Sleep 1, MongoFactory] @ tail"
    by (simp add: retry s2_calls)
next
  assume t: "mongo_transient t"
  then have n: "cls t \<noteq> MongoConfigurationError"
    by (auto simp: mongo_transient_def)
  define s2 where "s2 = sleep 1 (close_mongo (snd (try_mongo (FactoryRaises t) s1)))"
  have s2_calls: "calls s2 =
      calls s1 @ [MongoFactory] @ (case mongo s1 of None \<Rightarrow> [] | Some c \<Rightarrow> [MongoClose c]) @ [Sleep 1]"
    by (cases "mongo s1") (simp_all add: s2_def sleep_def close_mongo_def try_mongo_def Let_def)
  have s2_clients: "clients s2 = clients s1"
    by (cases "mongo s1") (simp_all add: s2_def sleep_def close_mongo_def try_mongo_def Let_def)
  have retry: "connect rs (FactoryRaises t # more) s = connect_mongo more 2 s2" for more
    using assms t n by (simp add: connect_def s2_def try_mongo_def Let_def)
  show "fst (connect rs (FactoryRaises t # Connected # rest) s) = Returned"
    by (simp add: retry try_mongo_def Let_def)
  show "calls (snd (connect rs (FactoryRaises t # Connected # rest) s)) =
      calls s1 @ [MongoFactory] @ (case mongo s1 of None \<Rightarrow> [] | Some c \<Rightarrow> [MongoClose c]) @
      [Sleep 1, MongoFactory]"
    by (simp add: retry try_mongo_def Let_def s2_calls)
  show "mongo (snd (connect rs (FactoryRaises t # Connected # rest) s)) = Some (Suc (clients s1))"
    by (simp add: retry try_mongo_def Let_def s2_clients)
  have "\<exists>tail. calls (snd (connect_mongo (a # rest) 2 s2)) = calls s2 @ [MongoFactory] @ tail"
    by (rule second_attempt_calls)
  then show "\<exists>tail. calls (snd (connect rs (FactoryRaises t # a # rest) s)) =
      calls s1 @ [MongoFactory] @ (case mongo s1 of None \<Rightarrow> [] | Some c \<Rightarrow> [MongoClose c]) @
      [Sleep 1, MongoFactory] @ tail"
    by (simp add: retry s2_calls)
qed

lemma redis_first_try:
  "connect_redis [Connected] 1 fresh =
     (Returned, \<lparr>redis = Some 1, mongo = None, mongo_db = None, clients = 1, calls = [RedisFactory]\<rparr>)"
  by (simp add: fresh_def try_redis_def Let_def)

theorem mongo_startup_errors_witness:
  "fst (connect_redis [Connected] 1 fresh) = Returned \<and>
   cls (Exn MongoConfigurationError ''Invalid URI scheme'') = MongoConfigurationError \<and>
   mongo_transient (Exn MongoServerSelectionTimeoutError ''Server selection timeout'') \<and>
   fst (connect [Connected] [PingRaises (Exn MongoConfigurationError ''Invalid URI scheme'')] fresh) =
     Raised (Exn MongoConfigurationError ''Invalid URI scheme'') \<and>
   calls (snd (connect [Connected] [PingRaises (Exn MongoConfigurationError ''Invalid URI scheme'')]
     fresh)) = [RedisFactory, MongoFactory] \<and>
   fst (connect [Connected]
     [PingRaises (Exn MongoServerSelectionTimeoutError ''Server selection timeout''), Connected]
     fresh) = Returned \<and>
   calls (snd (connect [Connected]
     [PingRaises (Exn MongoServerSelectionTimeoutError ''Server selection timeout''), Connected]
     fresh)) = [RedisFactory, MongoFactory, MongoClose 2, Sleep 1, MongoFactory] \<and>
   mongo (snd (connect [Connected]
     [PingRaises (Exn MongoServerSelectionTimeoutError ''Server selection timeout''), Connected]
     fresh)) = Some 3"
  using mongo_startup_errors [where e = "Exn MongoConfigurationError ''Invalid URI scheme''"
      and rest = "[]" and a = Connected
      and t = "Exn MongoServerSelectionTimeoutError ''Server selection timeout''",
      OF redis_first_try]
    redis_first_try
  by (simp add: mongo_transient_def eval_nat_numeral)

text \<open>
  Claim C6 as stated fails where the transient error comes from the factory: no
  client was created, \<^verbatim>\<open>if self.mongo:\<close> is false, and nothing is closed before
  the sleep and the second call of the factory.
\<close>

theorem transient_factory_error_counterexample:
  "mongo_transient (Exn OSError ''Name or service not known'') \<and>
   connect [Connected] [FactoryRaises (Exn OSError ''Name or service not known''), Connected] fresh =
     (Returned,
      \<lparr>redis = Some 1, mongo = Some 2, mongo_db = Some 2, clients = 2,
       calls = [RedisFactory, MongoFactory, Sleep 1, MongoFactory]\<rparr>)"
  by (simp add: mongo_transient_def connect_def fresh_def try_redis_def try_mongo_def
      close_mongo_def sleep_def Let_def eval_nat_numeral)

section \<open>Properties of the substitution script\<close>



lemma universal_newlines_no_cr: "13 \<notin> set (universal_newlines s)"
  by (induction s rule: universal_newlines.induct) auto








end
